theory Spec2Isabelle
  imports Complex_Main "HOL-Library.Word"
begin

section \<open>createTransaction (js/src/wallet/createTransaction.ts)\<close>

text \<open>
  The file holds one function, \<open>createTransaction\<close>.  It looks accounts up through a
  ledger connection, checks them, converts the decimal amount to the integer base unit,
  builds one transfer instruction (native or token), appends the reference keys and an
  optional memo instruction, and returns the transaction or throws one of eleven errors.

  Modelling decisions:
  \<^item> a thrown \<open>Error(CreateTransactionError.X)\<close> is the value \<open>Inl (Error X)\<close>, an
    exception thrown by a library call is another \<open>Inl\<close> value, a returned transaction
    is \<open>Inr tx\<close>;
  \<^item> the connection is a snapshot: a map from addresses to account infos; every
    \<open>getAccountInfo\<close> call is recorded, in order, in the list returned beside the result;
  \<^item> a \<open>BigNumber\<close> holds a finite decimal value, coefficient over a power of ten
    (NaN and the infinities are left out);
  \<^item> a JavaScript \<open>number\<close> that holds the result of \<open>toNumber\<close> on an integer is an
    integer-valued double or an infinity;
  \<^item> the operations of \<open>@solana/spl-token\<close> and \<open>@solana/web3.js\<close> whose code is not
    part of the file are fields of a record \<open>Library\<close>, with \<open>None\<close> where the operation
    throws; what the function does with their results, and the range checks that decide
    whether they throw, are written out.  Every theorem holds for every such library.
\<close>

subsection \<open>Errors\<close>

datatype CreateTransactionError =
    PAYER_NOT_FOUND
  | RECIPIENT_NOT_FOUND
  | TOKEN_NOT_FOUND
  | TOKEN_INVALID_PROGRAM
  | TOKEN_INVALID_LENGTH
  | TOKEN_MINT_NOT_INITIALIZED
  | AMOUNT_INVALID_DECIMALS
  | PAYER_ATA_NOT_FOUND
  | RECIPIENT_ATA_NOT_FOUND
  | PAYER_INSUFFICIENT_FUNDS
  | PAYER_ATA_INSUFFICIENT_FUNDS

text \<open>
  What a call can throw: \<open>Error X\<close> is the function's own \<open>new Error(X)\<close>; the others
  come out of the libraries.  \<open>RangeError\<close> is a buffer read or write out of range,
  \<open>InvalidCharacter\<close> is bn.js refusing a string, \<open>OwnerCannotSign\<close> is the address
  derivation refusing an owner that is off the curve, \<open>TypeError\<close> is a property read of
  \<open>undefined\<close>.
\<close>

datatype Thrown =
    Error CreateTransactionError
  | RangeError
  | InvalidCharacter
  | OwnerCannotSign
  | TypeError

subsection \<open>BigNumber: finite decimal values\<close>

text \<open>
  Modelled from the spec: bignumber.js is imported by the file and not part of it.  The
  amount is an arbitrary-precision decimal value; \<open>BigNumber c s\<close> stands for the decimal
  \<open>c / 10 ^ s\<close>, and \<open>valueOf\<close> is that value.
\<close>

datatype BigNumber = BigNumber (coefficient: int) (scale: nat)

definition valueOf :: "BigNumber \<Rightarrow> real" where
  "valueOf x = real_of_int (coefficient x) / 10 ^ scale x"

text \<open>
  Modelled from the spec: \<open>decimalPlaces()\<close> is the number of fractional digits the amount
  carries, that is the digits after the decimal point of the value, trailing zeros not
  counted (bignumber.js keeps its coefficient without them).
\<close>

fun fractionDigits :: "int \<Rightarrow> nat \<Rightarrow> nat" where
  "fractionDigits c 0 = 0"
| "fractionDigits c (Suc s) = (if c mod 10 = 0 then fractionDigits (c div 10) s else Suc s)"

definition decimalPlaces :: "BigNumber \<Rightarrow> nat" where
  "decimalPlaces x = fractionDigits (coefficient x) (scale x)"

text \<open>\<open>new BigNumber(n)\<close> for an integer \<open>n\<close>, as \<open>times\<close> does with its number argument.\<close>

definition BigNumber_ofInteger :: "int \<Rightarrow> BigNumber" where
  "BigNumber_ofInteger n = BigNumber n 0"

text \<open>Modelled from the spec: \<open>times\<close> and \<open>pow\<close> are exact.\<close>

definition times_BigNumber :: "BigNumber \<Rightarrow> BigNumber \<Rightarrow> BigNumber" where
  "times_BigNumber x y = BigNumber (coefficient x * coefficient y) (scale x + scale y)"

definition pow :: "BigNumber \<Rightarrow> nat \<Rightarrow> BigNumber" where
  "pow x n = BigNumber (coefficient x ^ n) (scale x * n)"

text \<open>
  Modelled from the spec: \<open>integerValue(BigNumber.ROUND_FLOOR)\<close> rounds towards minus
  infinity.  Its result is an integer, and the model hands it on as an \<open>int\<close>, whose
  division rounds the same way.
\<close>

definition integerValue_ROUND_FLOOR :: "BigNumber \<Rightarrow> int" where
  "integerValue_ROUND_FLOOR x = coefficient x div 10 ^ scale x"

definition SOL_DECIMALS :: nat where
  "SOL_DECIMALS = 9"

definition TEN :: BigNumber where
  "TEN = BigNumber_ofInteger 10"

definition LAMPORTS_PER_SOL :: int where
  "LAMPORTS_PER_SOL = 1000000000"

subsection \<open>JavaScript numbers\<close>

text \<open>
  \<open>toNumber()\<close> hands the value to JavaScript's \<open>Number\<close>: of an integer it gives the
  nearest double, ties to the even mantissa, and an infinity from \<open>2 ^ 1024\<close> on.  A
  double has 53 bits of mantissa.
\<close>

datatype number = Finite int | PosInfinity | NegInfinity

fun bitLength :: "nat \<Rightarrow> nat" where
  "bitLength n = (if n = 0 then 0 else Suc (bitLength (n div 2)))"

declare bitLength.simps [simp del]

definition roundToDouble :: "nat \<Rightarrow> nat" where
  "roundToDouble a =
     (if a < 2 ^ 53 then a
      else let e = bitLength a - 53;
               q = a div 2 ^ e;
               r = a mod 2 ^ e
           in (if 2 ^ e < 2 * r \<or> (2 * r = 2 ^ e \<and> odd q) then q + 1 else q) * 2 ^ e)"

definition toNumber :: "int \<Rightarrow> number" where
  "toNumber n =
     (let r = roundToDouble (nat \<bar>n\<bar>)
      in if 2 ^ 1024 \<le> r then (if n < 0 then NegInfinity else PosInfinity)
         else Finite (if n < 0 then - int r else int r))"

text \<open>\<open>x > y\<close> for a number \<open>x\<close> and an account's lamports \<open>y\<close>.\<close>

fun number_gt :: "number \<Rightarrow> nat \<Rightarrow> bool" where
  "number_gt (Finite x) y = (int y < x)"
| "number_gt PosInfinity y = True"
| "number_gt NegInfinity y = False"

text \<open>\<open>x < 0\<close> for a number \<open>x\<close>.\<close>

fun number_negative :: "number \<Rightarrow> bool" where
  "number_negative (Finite x) = (x < 0)"
| "number_negative PosInfinity = False"
| "number_negative NegInfinity = True"

text \<open>
  The lamports that \<open>SystemProgram.transfer\<close> can encode: it writes a signed 64-bit
  field and throws a \<open>RangeError\<close> for any number outside it.
\<close>

fun int64Range :: "number \<Rightarrow> bool" where
  "int64Range (Finite x) = (- (2 ^ 63) \<le> x \<and> x < 2 ^ 63)"
| "int64Range PosInfinity = False"
| "int64Range NegInfinity = False"

subsection \<open>Accounts, instructions, transactions\<close>

text \<open>A \<open>PublicKey\<close> is given by its base-58 text; \<open>equals\<close> is equality.\<close>

datatype PublicKey = PublicKey string

type_synonym Buffer = "8 word list"

record AccountInfo =
  owner :: PublicKey
  accountData :: Buffer
  lamports :: nat

record AccountMeta =
  pubkey :: PublicKey
  isSigner :: bool
  isWritable :: bool

record TransactionInstruction =
  programId :: PublicKey
  keys :: "AccountMeta list"
  data :: Buffer

record Transaction =
  instructions :: "TransactionInstruction list"

text \<open>The decoded mint: \<open>MintLayout.decode\<close> gives these two fields to the function.\<close>

record Mint =
  decimals :: nat
  isInitialized :: bool

text \<open>\<open>connection.getAccountInfo\<close>: \<open>None\<close> where the ledger has no account.\<close>

type_synonym Connection = "PublicKey \<Rightarrow> AccountInfo option"

text \<open>
  The options object.  \<open>None\<close> is an absent (undefined) field.  A JavaScript string is a
  list of UTF-16 code units.
\<close>

type_synonym jsstring = "16 word list"

record Options =
  token :: "PublicKey option"
  references :: "PublicKey list option"
  memo :: "jsstring option"

subsection \<open>The libraries\<close>

text \<open>
  What the function imports and calls.
  \<^item> \<open>SystemProgram_transfer\<close> is the instruction \<open>SystemProgram.transfer\<close> returns for
    lamports it can encode.
  \<^item> \<open>AccountLayout_decode\<close> gives the \<open>amount\<close> field of the decoded token account: the
    eight bytes of the field as they are, not a number (the cast \<open>as { amount: BN }\<close> of
    line 111 does nothing at run time).  The eight bytes are held in a \<open>64 word\<close>.  It is
    \<open>None\<close> when the account data is too short for the layout and decoding throws.
  \<^item> \<open>Token_getAssociatedTokenAddress\<close> is \<open>None\<close> when the derivation throws.
\<close>

record Library =
  SystemProgram_transfer :: "PublicKey \<Rightarrow> PublicKey \<Rightarrow> number \<Rightarrow> TransactionInstruction"
  TOKEN_PROGRAM_ID :: PublicKey
  ASSOCIATED_TOKEN_PROGRAM_ID :: PublicKey
  MintLayout_span :: nat
  MintLayout_decode :: "Buffer \<Rightarrow> Mint"
  AccountLayout_decode :: "Buffer \<Rightarrow> 64 word option"
  Token_getAssociatedTokenAddress ::
    "PublicKey \<Rightarrow> PublicKey \<Rightarrow> PublicKey \<Rightarrow> PublicKey \<Rightarrow> PublicKey option"
  Token_createTransferCheckedInstruction ::
    "PublicKey \<Rightarrow> PublicKey \<Rightarrow> PublicKey \<Rightarrow> PublicKey \<Rightarrow> PublicKey \<Rightarrow> PublicKey list
       \<Rightarrow> int \<Rightarrow> nat \<Rightarrow> TransactionInstruction"

text \<open>
  \<open>new u64(String(amount))\<close> for the integer \<open>amount\<close>.  Below \<open>10 ^ 21\<close> in magnitude
  \<open>String\<close> prints every digit and the big integer read back is the amount itself.  From
  \<open>10 ^ 21\<close> on \<open>String\<close> prints exponential notation (\<open>1e+21\<close>), which bn.js refuses.
\<close>

definition new_u64_String :: "int \<Rightarrow> Thrown + int" where
  "new_u64_String amount = (if \<bar>amount\<bar> < 10 ^ 21 then Inr amount else Inl InvalidCharacter)"

text \<open>
  \<open>tokens.gt(balance)\<close> of line 113, that is \<open>tokens.cmp(balance) === 1\<close>, where \<open>tokens\<close>
  is a big integer and \<open>balance\<close> the eight bytes of the amount field.  bn.js keeps a sign
  \<open>negative\<close>, a list \<open>words\<close> of 26-bit words and their count \<open>length\<close>; of the bytes
  it finds \<open>negative\<close> and \<open>words\<close> undefined and \<open>length\<close> equal to 8.  So \<open>cmp\<close>
  answers 1 at once for \<open>tokens\<close> that is not negative (\<open>num.negative !== 0\<close> holds), and
  for negative \<open>tokens\<close> it compares the word count with 8 and negates the answer; with
  equal counts it reads \<open>num.words[i]\<close> and throws.
\<close>

definition BN_length :: "int \<Rightarrow> nat" where
  "BN_length n = max 1 ((bitLength (nat \<bar>n\<bar>) + 25) div 26)"

definition BN_gt_bytes :: "int \<Rightarrow> 64 word \<Rightarrow> Thrown + bool" where
  "BN_gt_bytes tokens balance =
     (if 0 \<le> tokens then Inr True
      else if 8 < BN_length tokens then Inr False
      else if BN_length tokens < 8 then Inr True
      else Inl TypeError)"

text \<open>
  \<open>Buffer.from(memo, 'utf8')\<close>: the UTF-8 encoding of a list of UTF-16 code units.  A
  surrogate pair is one code point of four bytes; a surrogate without its partner is
  encoded as U+FFFD.
\<close>

definition utf8_codePoint :: "nat \<Rightarrow> Buffer" where
  "utf8_codePoint c =
     (if c < 128 then [of_nat c]
      else if c < 2048 then [of_nat (192 + c div 64), of_nat (128 + c mod 64)]
      else if c < 65536 then
        [of_nat (224 + c div 4096), of_nat (128 + c div 64 mod 64), of_nat (128 + c mod 64)]
      else
        [of_nat (240 + c div 262144), of_nat (128 + c div 4096 mod 64),
         of_nat (128 + c div 64 mod 64), of_nat (128 + c mod 64)])"

definition isHighSurrogate :: "16 word \<Rightarrow> bool" where
  "isHighSurrogate u = (55296 \<le> unat u \<and> unat u < 56320)"

definition isLowSurrogate :: "16 word \<Rightarrow> bool" where
  "isLowSurrogate u = (56320 \<le> unat u \<and> unat u < 57344)"

fun Buffer_from_utf8 :: "jsstring \<Rightarrow> Buffer" where
  "Buffer_from_utf8 [] = []"
| "Buffer_from_utf8 [u] =
     (if isHighSurrogate u \<or> isLowSurrogate u then utf8_codePoint 65533
      else utf8_codePoint (unat u))"
| "Buffer_from_utf8 (u # v # us) =
     (if isHighSurrogate u \<and> isLowSurrogate v
        then utf8_codePoint (65536 + (unat u - 55296) * 1024 + (unat v - 56320))
               @ Buffer_from_utf8 us
      else if isHighSurrogate u \<or> isLowSurrogate u
        then utf8_codePoint 65533 @ Buffer_from_utf8 (v # us)
      else utf8_codePoint (unat u) @ Buffer_from_utf8 (v # us))"

definition MEMO_PROGRAM_ID :: PublicKey where
  "MEMO_PROGRAM_ID = PublicKey ''MemoSq4gqABAXKb96qnH8TysNcWxMyWCqXgDLGmfcHr''"

subsection \<open>createTransaction\<close>

text \<open>
  Lines 62 to 79, the native branch.  It makes no ledger call.  \<open>amount'\<close> is the
  variable \<open>amount\<close> after its reassignment.
\<close>

definition nativeTransfer ::
  "Library \<Rightarrow> PublicKey \<Rightarrow> AccountInfo \<Rightarrow> PublicKey \<Rightarrow> BigNumber
     \<Rightarrow> Thrown + TransactionInstruction" where
  "nativeTransfer lib payer payerInfo recipient amount =
     (if SOL_DECIMALS < decimalPlaces amount then Inl (Error AMOUNT_INVALID_DECIMALS)
      else
        let amount' = integerValue_ROUND_FLOOR
                        (times_BigNumber amount (BigNumber_ofInteger LAMPORTS_PER_SOL));
            lamports' = toNumber amount'
        in if number_gt lamports' (lamports payerInfo)
             then Inl (Error PAYER_INSUFFICIENT_FUNDS)
           else if \<not> int64Range lamports' then Inl RangeError
           else Inr (SystemProgram_transfer lib payer recipient lamports'))"

text \<open>
  Lines 81 to 136, the token branch, with the addresses it asks the ledger for.
\<close>

definition tokenTransfer ::
  "Library \<Rightarrow> Connection \<Rightarrow> PublicKey \<Rightarrow> PublicKey \<Rightarrow> BigNumber \<Rightarrow> PublicKey
     \<Rightarrow> PublicKey list \<times> (Thrown + TransactionInstruction)" where
  "tokenTransfer lib connection payer recipient amount token' =
     (case connection token' of
        None \<Rightarrow> ([token'], Inl (Error TOKEN_NOT_FOUND))
      | Some tokenInfo \<Rightarrow>
     if owner tokenInfo \<noteq> TOKEN_PROGRAM_ID lib
       then ([token'], Inl (Error TOKEN_INVALID_PROGRAM))
     else if length (accountData tokenInfo) \<noteq> MintLayout_span lib
       then ([token'], Inl (Error TOKEN_INVALID_LENGTH))
     else
       let mint = MintLayout_decode lib (accountData tokenInfo)
       in
     if \<not> isInitialized mint then ([token'], Inl (Error TOKEN_MINT_NOT_INITIALIZED))
     else
       let decimals' = decimals mint
       in
     if decimals' < decimalPlaces amount then ([token'], Inl (Error AMOUNT_INVALID_DECIMALS))
     else
       let amount' = integerValue_ROUND_FLOOR (times_BigNumber amount (pow TEN decimals'))
       in
     (case Token_getAssociatedTokenAddress lib
             (ASSOCIATED_TOKEN_PROGRAM_ID lib) (TOKEN_PROGRAM_ID lib) token' payer of
        None \<Rightarrow> ([token'], Inl OwnerCannotSign)
      | Some payerATA \<Rightarrow>
     (case connection payerATA of
        None \<Rightarrow> ([token', payerATA], Inl (Error PAYER_ATA_NOT_FOUND))
      | Some payerATAInfo \<Rightarrow>
     (case AccountLayout_decode lib (accountData payerATAInfo) of
        None \<Rightarrow> ([token', payerATA], Inl RangeError)
      | Some balance \<Rightarrow>
     (case new_u64_String amount' of
        Inl e \<Rightarrow> ([token', payerATA], Inl e)
      | Inr tokens \<Rightarrow>
     (case BN_gt_bytes tokens balance of
        Inl e \<Rightarrow> ([token', payerATA], Inl e)
      | Inr True \<Rightarrow> ([token', payerATA], Inl (Error PAYER_ATA_INSUFFICIENT_FUNDS))
      | Inr False \<Rightarrow>
     (case Token_getAssociatedTokenAddress lib
             (ASSOCIATED_TOKEN_PROGRAM_ID lib) (TOKEN_PROGRAM_ID lib) token' recipient of
        None \<Rightarrow> ([token', payerATA], Inl OwnerCannotSign)
      | Some recipientATA \<Rightarrow>
     (case connection recipientATA of
        None \<Rightarrow> ([token', payerATA, recipientATA], Inl (Error RECIPIENT_ATA_NOT_FOUND))
      | Some recipientATAInfo \<Rightarrow>
          ([token', payerATA, recipientATA],
           Inr (Token_createTransferCheckedInstruction lib (TOKEN_PROGRAM_ID lib)
                  payerATA token' recipientATA payer [] tokens decimals'))))))))))"

text \<open>Line 140: the key made of a reference.\<close>

definition referenceKey :: "PublicKey \<Rightarrow> AccountMeta" where
  "referenceKey k = \<lparr>pubkey = k, isSigner = False, isWritable = False\<rparr>"

text \<open>Lines 138 to 141: \<open>references?.length\<close> holds for a list that is there and not empty.\<close>

definition addReferences ::
  "PublicKey list option \<Rightarrow> TransactionInstruction \<Rightarrow> TransactionInstruction" where
  "addReferences refs instruction =
     (case refs of
        None \<Rightarrow> instruction
      | Some rs \<Rightarrow>
          if length rs \<noteq> 0 then instruction\<lparr>keys := keys instruction @ map referenceKey rs\<rparr>
          else instruction)"

text \<open>Lines 143 to 157: the transaction, with the memo instruction when \<open>memo != null\<close>.\<close>

definition memoInstruction :: "jsstring \<Rightarrow> TransactionInstruction" where
  "memoInstruction m = \<lparr>programId = MEMO_PROGRAM_ID, keys = [], data = Buffer_from_utf8 m\<rparr>"

definition assemble :: "jsstring option \<Rightarrow> TransactionInstruction \<Rightarrow> Transaction" where
  "assemble m instruction =
     (let transaction = \<lparr>instructions = [] @ [instruction]\<rparr>
      in case m of
           None \<Rightarrow> transaction
         | Some s \<Rightarrow> transaction\<lparr>instructions := instructions transaction @ [memoInstruction s]\<rparr>)"

text \<open>
  The function.  The first component of the result lists the addresses passed to
  \<open>getAccountInfo\<close>, in call order.
\<close>

definition createTransaction ::
  "Library \<Rightarrow> Connection \<Rightarrow> PublicKey \<Rightarrow> PublicKey \<Rightarrow> BigNumber \<Rightarrow> Options
     \<Rightarrow> PublicKey list \<times> (Thrown + Transaction)" where
  "createTransaction lib connection payer recipient amount opts =
     (case connection payer of
        None \<Rightarrow> ([payer], Inl (Error PAYER_NOT_FOUND))
      | Some payerInfo \<Rightarrow>
     (case connection recipient of
        None \<Rightarrow> ([payer, recipient], Inl (Error RECIPIENT_NOT_FOUND))
      | Some recipientInfo \<Rightarrow>
     (case (case token opts of
              None \<Rightarrow> ([], nativeTransfer lib payer payerInfo recipient amount)
            | Some token' \<Rightarrow> tokenTransfer lib connection payer recipient amount token') of
        (queries, Inl e) \<Rightarrow> ([payer, recipient] @ queries, Inl e)
      | (queries, Inr instruction) \<Rightarrow>
          ([payer, recipient] @ queries,
           Inr (assemble (memo opts) (addReferences (references opts) instruction))))))"

subsection \<open>A library instance and ledgers to run the function on\<close>

text \<open>
  An instance of \<open>Library\<close> with the record layouts of the token program: a mint is
  82 bytes with the decimals at offset 44 and the initialised flag at offset 45; a token
  account is 165 bytes with the eight bytes of the amount at offset 64, and decoding
  reads numbers up to offset 133.  An associated token address is written as a text made
  of the mint and the owner, and every owner is taken to be on the curve.  The transfer
  instruction holds the lamports in two's complement; the function asks for it only with
  lamports in the signed 64-bit range.
\<close>

definition u64le :: "nat \<Rightarrow> Buffer" where
  "u64le n = map (\<lambda>i. of_nat (n div 256 ^ i mod 256)) [0, 1, 2, 3, 4, 5, 6, 7]"

definition fromLE :: "Buffer \<Rightarrow> nat" where
  "fromLE bs = foldr (\<lambda>b r. unat b + 256 * r) bs 0"

definition keyText :: "PublicKey \<Rightarrow> string" where
  "keyText k = (case k of PublicKey s \<Rightarrow> s)"

definition systemProgramId :: PublicKey where
  "systemProgramId = PublicKey ''11111111111111111111111111111111''"

definition sampleLibrary :: Library where
  "sampleLibrary =
     \<lparr>SystemProgram_transfer = (\<lambda>fromPubkey toPubkey lamports'.
        \<lparr>programId = systemProgramId,
         keys = [\<lparr>pubkey = fromPubkey, isSigner = True, isWritable = True\<rparr>,
                 \<lparr>pubkey = toPubkey, isSigner = False, isWritable = True\<rparr>],
         data = [2, 0, 0, 0] @
                (case lamports' of Finite n \<Rightarrow> u64le (nat (n mod 2 ^ 64))
                 | PosInfinity \<Rightarrow> u64le 0 | NegInfinity \<Rightarrow> u64le 0)\<rparr>),
      TOKEN_PROGRAM_ID = PublicKey ''TokenkegQfeZyiNwAJbNbGKPFXCWuBvf9Ss623VQ5DA'',
      ASSOCIATED_TOKEN_PROGRAM_ID = PublicKey ''ATokenGPvbdGVxr1b2hvZbsiqW5xWH25efTNsLJA8knL'',
      MintLayout_span = 82,
      MintLayout_decode = (\<lambda>d. \<lparr>decimals = unat (d ! 44), isInitialized = (d ! 45 \<noteq> 0)\<rparr>),
      AccountLayout_decode = (\<lambda>d.
        if length d < 133 then None else Some (of_nat (fromLE (take 8 (drop 64 d))))),
      Token_getAssociatedTokenAddress = (\<lambda>associatedProgramId programId' mint owner'.
        Some (PublicKey (''ata:'' @ keyText mint @ '':'' @ keyText owner'))),
      Token_createTransferCheckedInstruction =
        (\<lambda>programId' source mint destination owner' multiSigners amount decimals'.
        \<lparr>programId = programId',
         keys = [\<lparr>pubkey = source, isSigner = False, isWritable = True\<rparr>,
                 \<lparr>pubkey = mint, isSigner = False, isWritable = False\<rparr>,
                 \<lparr>pubkey = destination, isSigner = False, isWritable = True\<rparr>,
                 \<lparr>pubkey = owner', isSigner = True, isWritable = False\<rparr>],
         data = [12] @ u64le (nat (amount mod 2 ^ 64)) @ [of_nat decimals']\<rparr>)\<rparr>"

definition alice :: PublicKey where
  "alice = PublicKey ''alice''"

definition bob :: PublicKey where
  "bob = PublicKey ''bob''"

definition coin :: PublicKey where
  "coin = PublicKey ''coin''"

definition blankCoin :: PublicKey where
  "blankCoin = PublicKey ''blank''"

definition walletAccount :: "nat \<Rightarrow> AccountInfo" where
  "walletAccount n = \<lparr>owner = systemProgramId, accountData = [], lamports = n\<rparr>"

definition mintAccount :: "nat \<Rightarrow> nat \<Rightarrow> AccountInfo" where
  "mintAccount d initialized =
     \<lparr>owner = TOKEN_PROGRAM_ID sampleLibrary,
      accountData = replicate 44 0 @ [of_nat d, of_nat initialized] @ replicate 36 0,
      lamports = 1461600\<rparr>"

definition tokenAccount :: "nat \<Rightarrow> AccountInfo" where
  "tokenAccount n =
     \<lparr>owner = TOKEN_PROGRAM_ID sampleLibrary,
      accountData = replicate 64 0 @ u64le n @ replicate 93 0,
      lamports = 2039280\<rparr>"

text \<open>
  A ledger with the wallets \<open>alice\<close> (holding the given lamports) and \<open>bob\<close>, the mint
  \<open>coin\<close> with six decimals, a mint record \<open>blankCoin\<close> that is not initialised, alice's
  token account with the given balance, and bob's token account when the flag is set.
\<close>

definition sampleLedger :: "nat \<Rightarrow> nat \<Rightarrow> bool \<Rightarrow> Connection" where
  "sampleLedger aliceLamports aliceTokens bobHasAccount k =
     (if k = alice then Some (walletAccount aliceLamports)
      else if k = bob then Some (walletAccount 0)
      else if k = coin then Some (mintAccount 6 1)
      else if k = blankCoin then Some (mintAccount 0 0)
      else if k = PublicKey ''ata:coin:alice'' then Some (tokenAccount aliceTokens)
      else if k = PublicKey ''ata:coin:bob'' \<and> bobHasAccount then Some (tokenAccount 0)
      else None)"

definition nativeOptions :: Options where
  "nativeOptions = \<lparr>token = None, references = None, memo = None\<rparr>"

definition tokenOptions :: Options where
  "tokenOptions = \<lparr>token = Some coin, references = None, memo = None\<rparr>"

section \<open>Supporting lemmas\<close>

subsection \<open>The decimal conversion\<close>

lemma valueOf_times:
  "valueOf (times_BigNumber x y) = valueOf x * valueOf y"
  by (simp add: valueOf_def times_BigNumber_def power_add)

lemma valueOf_pow_TEN:
  "valueOf (pow TEN n) = 10 ^ n"
  by (simp add: valueOf_def pow_def TEN_def BigNumber_ofInteger_def)

lemma valueOf_LAMPORTS_PER_SOL:
  "valueOf (BigNumber_ofInteger LAMPORTS_PER_SOL) = 10 ^ SOL_DECIMALS"
  by (simp add: valueOf_def BigNumber_ofInteger_def LAMPORTS_PER_SOL_def SOL_DECIMALS_def)

lemma integerValue_is_floor:
  "integerValue_ROUND_FLOOR x = \<lfloor>valueOf x\<rfloor>"
proof -
  have "\<lfloor>real_of_int (coefficient x) / real_of_int (10 ^ scale x)\<rfloor>
          = coefficient x div 10 ^ scale x"
    by (rule floor_divide_of_int_eq)
  then show ?thesis
    by (simp add: integerValue_ROUND_FLOOR_def valueOf_def)
qed

lemma fractionDigits_numeral [simp]:
  "fractionDigits c (numeral k) =
     (if c mod 10 = 0 then fractionDigits (c div 10) (pred_numeral k) else numeral k)"
  by (simp add: numeral_eq_Suc)

lemma fractionDigits_le: "fractionDigits c s \<le> s"
proof (induction s arbitrary: c)
  case 0
  show ?case by simp
next
  case (Suc s)
  from Suc [of "c div 10"] show ?case by simp
qed

lemma fractionDigits_le_iff:
  "fractionDigits c s \<le> p \<longleftrightarrow> 10 ^ (s - p) dvd c"
proof (induction s arbitrary: c)
  case 0
  show ?case by simp
next
  case (Suc s)
  show ?case
  proof (cases "Suc s \<le> p")
    case True
    have "fractionDigits c (Suc s) \<le> Suc s"
      by (rule fractionDigits_le)
    with True have "fractionDigits c (Suc s) \<le> p"
      by linarith
    moreover from True have "Suc s - p = 0" by simp
    ultimately show ?thesis by simp
  next
    case False
    then have e: "Suc s - p = Suc (s - p)" by simp
    show ?thesis
    proof (cases "c mod 10 = 0")
      case True
      then obtain k where k: "c = 10 * k" by (auto simp: mod_eq_0_iff_dvd)
      show ?thesis using Suc.IH [of k] by (simp add: e k)
    next
      case nd: False
      have "\<not> 10 ^ Suc (s - p) dvd c"
      proof
        assume "10 ^ Suc (s - p) dvd c"
        then have "10 dvd c" by (metis dvd_mult_left power_Suc)
        with nd show False by (simp add: mod_eq_0_iff_dvd)
      qed
      with nd False show ?thesis by (simp add: e)
    qed
  qed
qed

text \<open>
  \<open>decimalPlaces\<close> counts the fractional digits of the value: it is at most \<open>p\<close> exactly
  when the value times \<open>10 ^ p\<close> is a whole number.
\<close>

lemma decimalPlaces_le_iff:
  "decimalPlaces x \<le> p \<longleftrightarrow> valueOf x * 10 ^ p \<in> \<int>"
proof (cases "scale x \<le> p")
  case True
  then obtain d where d: "p = scale x + d" by (auto simp: le_iff_add)
  have "valueOf x * 10 ^ p = of_int (coefficient x * 10 ^ d)"
    by (simp add: valueOf_def d power_add)
  then have "valueOf x * 10 ^ p \<in> \<int>" by (simp only: Ints_of_int)
  moreover have "decimalPlaces x \<le> p"
    using fractionDigits_le [of "coefficient x" "scale x"] True
    by (simp add: decimalPlaces_def)
  ultimately show ?thesis by simp
next
  case False
  then obtain d where d: "scale x = p + d" by (auto simp: not_le less_iff_Suc_add)
  have v: "valueOf x * 10 ^ p = of_int (coefficient x) / of_int (10 ^ d)"
    by (simp add: valueOf_def d power_add)
  have "of_int (coefficient x) / (of_int (10 ^ d) :: real) \<in> \<int> \<longleftrightarrow> 10 ^ d dvd coefficient x"
  proof
    assume "of_int (coefficient x) / (of_int (10 ^ d) :: real) \<in> \<int>"
    then obtain k :: int where "of_int (coefficient x) / (of_int (10 ^ d) :: real) = of_int k"
      by (auto elim: Ints_cases)
    then have "(of_int (coefficient x) :: real) = of_int (k * 10 ^ d)"
      by (simp add: field_simps)
    then have "coefficient x = k * 10 ^ d" by (simp only: of_int_eq_iff)
    then show "10 ^ d dvd coefficient x" by simp
  next
    assume "10 ^ d dvd coefficient x"
    then show "of_int (coefficient x) / (of_int (10 ^ d) :: real) \<in> \<int>"
      by (rule of_int_divide_in_Ints)
  qed
  then show ?thesis
    by (simp add: v decimalPlaces_def fractionDigits_le_iff d)
qed

subsection \<open>Rounding to a double\<close>

lemma bitLength_unique: "2 ^ k \<le> n \<Longrightarrow> n < 2 ^ Suc k \<Longrightarrow> bitLength n = Suc k"
proof (induction k arbitrary: n)
  case 0
  then have "n = 1" by simp
  then show ?case by (simp add: bitLength.simps)
next
  case (Suc k)
  have "2 ^ k \<le> n div 2" using Suc.prems(1) by simp
  moreover have "n div 2 < 2 ^ Suc k" using Suc.prems(2) by simp
  ultimately have "bitLength (n div 2) = Suc k" by (rule Suc.IH)
  moreover have "n \<noteq> 0" using Suc.prems(1) by (cases "n = 0") simp_all
  ultimately show ?case by (subst bitLength.simps) simp
qed

lemma bitLength_lower: "0 < n \<Longrightarrow> 2 ^ (bitLength n - 1) \<le> n"
proof (induction n rule: bitLength.induct)
  case (1 n)
  show ?case
  proof (cases "n div 2 = 0")
    case True
    with "1.prems" have "n = 1" by (simp add: div_eq_0_iff)
    then show ?thesis by (simp add: bitLength.simps)
  next
    case False
    with "1.IH" "1.prems" have ih: "2 ^ (bitLength (n div 2) - 1) \<le> n div 2" by simp
    from False have "bitLength (n div 2) \<noteq> 0" by (subst bitLength.simps) simp
    then have "bitLength n - 1 = Suc (bitLength (n div 2) - 1)"
      using "1.prems" by (subst bitLength.simps) simp
    with ih show ?thesis by simp
  qed
qed

lemma roundToDouble_positive: "0 < a \<Longrightarrow> 0 < roundToDouble a"
proof -
  assume a: "0 < a"
  have "2 ^ (bitLength a - 53) \<le> (2::nat) ^ (bitLength a - 1)"
    by (rule power_increasing) simp_all
  also have "\<dots> \<le> a" using a by (rule bitLength_lower)
  finally have "0 < a div 2 ^ (bitLength a - 53)"
    by (simp add: div_greater_zero_iff)
  then show ?thesis using a by (simp add: roundToDouble_def Let_def)
qed

lemma bitLength_upper: "n < 2 ^ k \<Longrightarrow> bitLength n \<le> k"
proof (induction k arbitrary: n)
  case 0
  then have "n = 0" by simp
  then show ?case by (simp add: bitLength.simps)
next
  case (Suc k)
  then have "n div 2 < 2 ^ k" by simp
  then have "bitLength (n div 2) \<le> k" by (rule Suc.IH)
  then show ?case by (subst bitLength.simps) simp
qed

lemma roundToDouble_le_power:
  assumes "53 \<le> k" and "a \<le> 2 ^ k"
  shows "roundToDouble a \<le> 2 ^ k"
proof (cases "a < 2 ^ 53")
  case True
  with assms(2) show ?thesis by (simp add: roundToDouble_def)
next
  case False
  define e where "e = bitLength a - 53"
  define q where "q = a div 2 ^ e"
  from False have "0 < a" by (cases "a = 0") simp_all
  then have "2 ^ (bitLength a - 1) \<le> a" by (rule bitLength_lower)
  with assms(2) have "(2::nat) ^ (bitLength a - 1) \<le> 2 ^ k" by linarith
  then have "bitLength a - 1 \<le> k" by simp
  then have ek: "e \<le> k" by (simp add: e_def)
  then have split: "(2::nat) ^ k = 2 ^ (k - e) * 2 ^ e"
    by (simp add: power_add [symmetric])
  have r: "roundToDouble a
             = (if 2 ^ e < 2 * (a mod 2 ^ e) \<or> (2 * (a mod 2 ^ e) = 2 ^ e \<and> odd q)
                then q + 1 else q) * 2 ^ e"
    using False by (simp add: roundToDouble_def Let_def e_def q_def)
  show ?thesis
  proof (cases "a = 2 ^ k")
    case True
    then have "a mod 2 ^ e = 0" and "q * 2 ^ e = a"
      by (simp_all add: split q_def)
    with r True show ?thesis by simp
  next
    case False
    with assms(2) have "a < 2 ^ (k - e) * 2 ^ e" by (simp add: split [symmetric])
    then have "q < 2 ^ (k - e)" unfolding q_def by (rule less_mult_imp_div_less)
    then have "q + 1 \<le> 2 ^ (k - e)" by simp
    then have "(q + 1) * 2 ^ e \<le> 2 ^ (k - e) * 2 ^ e" by (rule mult_le_mono1)
    moreover from r have "roundToDouble a \<le> (q + 1) * 2 ^ e" by simp
    ultimately show ?thesis by (simp add: split)
  qed
qed

text \<open>Below \<open>2 ^ 53\<close> in magnitude every integer is a double.\<close>

lemma toNumber_exact: "\<bar>n\<bar> < 2 ^ 53 \<Longrightarrow> toNumber n = Finite n"
  by (auto simp add: toNumber_def roundToDouble_def Let_def)

lemma toNumber_negative: "n < 0 \<Longrightarrow> number_negative (toNumber n)"
  using roundToDouble_positive [of "nat \<bar>n\<bar>"] by (simp add: toNumber_def Let_def)

lemma negative_not_gt: "number_negative x \<Longrightarrow> \<not> number_gt x y"
  by (cases x) simp_all

lemma toNumber_exact_int64: "\<bar>n\<bar> < 2 ^ 53 \<Longrightarrow> int64Range (toNumber n)"
  by (auto simp add: toNumber_exact)

text \<open>A negative integer from \<open>- 2 ^ 63\<close> on stays in the signed 64-bit range as a double.\<close>

lemma toNumber_negative_int64:
  assumes "- (2 ^ 63) \<le> n" and "n < 0"
  shows "int64Range (toNumber n)"
proof -
  from assms have "nat \<bar>n\<bar> \<le> 2 ^ 63" by simp
  then have "roundToDouble (nat \<bar>n\<bar>) \<le> 2 ^ 63"
    by (rule roundToDouble_le_power [rotated]) simp
  then show ?thesis using assms(2) by (simp add: toNumber_def Let_def)
qed

text \<open>Integers above \<open>2 ^ 53\<close> that are not doubles, and the doubles they become.\<close>

lemma toNumber_2_54_plus_1: "toNumber 18014398509481985 = Finite 18014398509481984"
proof -
  have "bitLength 18014398509481985 = Suc 54"
    by (rule bitLength_unique) simp_all
  then show ?thesis
    by (simp add: toNumber_def roundToDouble_def Let_def)
qed

lemma toNumber_2_55_plus_1: "toNumber 36028797018963969 = Finite 36028797018963968"
proof -
  have "bitLength 36028797018963969 = Suc 55"
    by (rule bitLength_unique) simp_all
  then show ?thesis
    by (simp add: toNumber_def roundToDouble_def Let_def)
qed

lemma toNumber_2_56_plus_1: "toNumber 72057594037927937 = Finite 72057594037927936"
proof -
  have "bitLength 72057594037927937 = Suc 56"
    by (rule bitLength_unique) simp_all
  then show ?thesis
    by (simp add: toNumber_def roundToDouble_def Let_def)
qed

lemma toNumber_minus_2_54_minus_1:
  "toNumber (- 18014398509481985) = Finite (- 18014398509481984)"
proof -
  have "bitLength 18014398509481985 = Suc 54"
    by (rule bitLength_unique) simp_all
  then show ?thesis
    by (simp add: toNumber_def roundToDouble_def Let_def)
qed

subsection \<open>The shape of createTransaction\<close>

lemma createTransaction_native:
  "connection payer = Some payerInfo \<Longrightarrow> connection recipient = Some recipientInfo \<Longrightarrow>
   token opts = None \<Longrightarrow>
   createTransaction lib connection payer recipient amount opts =
     ([payer, recipient],
      map_sum id (\<lambda>i. assemble (memo opts) (addReferences (references opts) i))
        (nativeTransfer lib payer payerInfo recipient amount))"
  by (simp add: createTransaction_def split: sum.splits)

lemma createTransaction_token:
  "connection payer = Some payerInfo \<Longrightarrow> connection recipient = Some recipientInfo \<Longrightarrow>
   token opts = Some t \<Longrightarrow>
   createTransaction lib connection payer recipient amount opts =
     (payer # recipient # fst (tokenTransfer lib connection payer recipient amount t),
      map_sum id (\<lambda>i. assemble (memo opts) (addReferences (references opts) i))
        (snd (tokenTransfer lib connection payer recipient amount t)))"
  by (simp add: createTransaction_def split: sum.splits prod.splits)

text \<open>
  Line 113 in the code as it is: below \<open>10 ^ 21\<close> in magnitude the token amount is
  found greater than the balance, whatever the balance.
\<close>

lemma BN_gt_bytes_always:
  assumes "\<bar>tokens\<bar> < 10 ^ 21"
  shows "BN_gt_bytes tokens balance = Inr True"
proof (cases "0 \<le> tokens")
  case True
  then show ?thesis by (simp add: BN_gt_bytes_def)
next
  case False
  from assms have "nat \<bar>tokens\<bar> < 2 ^ 70" by simp
  then have "bitLength (nat \<bar>tokens\<bar>) \<le> 70" by (rule bitLength_upper)
  then have "BN_length tokens < 8" by (simp add: BN_length_def)
  with False show ?thesis by (simp add: BN_gt_bytes_def)
qed

lemma new_u64_String_Inl: "new_u64_String n = Inl e \<Longrightarrow> e = InvalidCharacter"
  by (simp add: new_u64_String_def split: if_splits)

lemma new_u64_String_Inr: "new_u64_String n = Inr tokens \<Longrightarrow> \<bar>tokens\<bar> < 10 ^ 21"
  by (simp add: new_u64_String_def split: if_splits)

lemma BN_gt_bytes_Inl: "BN_gt_bytes tokens balance = Inl e \<Longrightarrow> e = TypeError"
  by (simp add: BN_gt_bytes_def split: if_splits)

text \<open>So the token branch never gets past line 113: it always throws.\<close>

lemma tokenTransfer_throws:
  "\<exists>e. snd (tokenTransfer lib connection payer recipient amount t) = Inl e \<and>
       e \<noteq> Error RECIPIENT_ATA_NOT_FOUND"
  by (auto simp add: tokenTransfer_def Let_def BN_gt_bytes_always
      dest!: new_u64_String_Inl new_u64_String_Inr split: option.splits sum.splits bool.splits)

lemma createTransaction_token_throws:
  assumes "token opts = Some t"
  shows "\<exists>e. snd (createTransaction lib connection payer recipient amount opts) = Inl e \<and>
       e \<noteq> Error RECIPIENT_ATA_NOT_FOUND"
proof -
  obtain qs e where "tokenTransfer lib connection payer recipient amount t = (qs, Inl e)"
    and "e \<noteq> Error RECIPIENT_ATA_NOT_FOUND"
    using tokenTransfer_throws [of lib connection payer recipient amount t]
    by (cases "tokenTransfer lib connection payer recipient amount t") auto
  with assms show ?thesis
    by (simp add: createTransaction_def split: option.splits)
qed

text \<open>
  A call that returns a transaction built it from one instruction, and the same call with
  other references and another memo builds its transaction from that same instruction.
\<close>

lemma createTransaction_Inr:
  assumes "createTransaction lib connection payer recipient amount opts = (qs, Inr tx)"
  shows "\<exists>ix.
    (\<forall>refs m. createTransaction lib connection payer recipient amount
        (opts\<lparr>references := refs, memo := m\<rparr>) = (qs, Inr (assemble m (addReferences refs ix))))
    \<and> tx = assemble (memo opts) (addReferences (references opts) ix)"
proof (cases "connection payer")
  case None
  with assms show ?thesis by (simp add: createTransaction_def)
next
  case payerSome: (Some payerInfo)
  show ?thesis
  proof (cases "connection recipient")
    case None
    with assms payerSome show ?thesis by (simp add: createTransaction_def)
  next
    case recipientSome: (Some recipientInfo)
    obtain qs' r where b: "(case token opts of
              None \<Rightarrow> ([], nativeTransfer lib payer payerInfo recipient amount)
            | Some token' \<Rightarrow> tokenTransfer lib connection payer recipient amount token')
          = (qs', r)" by (cases "(case token opts of
              None \<Rightarrow> ([], nativeTransfer lib payer payerInfo recipient amount)
            | Some token' \<Rightarrow> tokenTransfer lib connection payer recipient amount token')")
    show ?thesis
    proof (cases r)
      case (Inl e)
      with assms payerSome recipientSome b show ?thesis
        by (simp add: createTransaction_def)
    next
      case (Inr ix)
      with assms payerSome recipientSome b
      have "tx = assemble (memo opts) (addReferences (references opts) ix)"
        and "qs = [payer, recipient] @ qs'"
        by (simp_all add: createTransaction_def)
      moreover have "createTransaction lib connection payer recipient amount
          (opts\<lparr>references := refs, memo := m\<rparr>)
            = ([payer, recipient] @ qs', Inr (assemble m (addReferences refs ix)))" for refs m
        using payerSome recipientSome b Inr by (simp add: createTransaction_def)
      ultimately show ?thesis by blast
    qed
  qed
qed

subsection \<open>Running the function on the sample ledgers\<close>

lemmas sample_defs =
  sampleLibrary_def sampleLedger_def alice_def bob_def coin_def blankCoin_def walletAccount_def
  mintAccount_def tokenAccount_def nativeOptions_def tokenOptions_def keyText_def
  systemProgramId_def u64le_def fromLE_def

lemmas run_defs =
  createTransaction_def nativeTransfer_def tokenTransfer_def addReferences_def assemble_def
  memoInstruction_def referenceKey_def new_u64_String_def BN_gt_bytes_def
  Let_def decimalPlaces_def SOL_DECIMALS_def integerValue_ROUND_FLOOR_def
  times_BigNumber_def pow_def TEN_def BigNumber_ofInteger_def LAMPORTS_PER_SOL_def

text \<open>
  The first scenario of the specification: 1.5 SOL from a payer who holds 2 SOL, no
  token, memo or references; one instruction moving 1500000000 lamports.
\<close>

lemma native_scenario:
  "createTransaction sampleLibrary (sampleLedger 2000000000 0 False) alice bob (BigNumber 15 1)
     nativeOptions
   = ([alice, bob], Inr \<lparr>instructions =
        [SystemProgram_transfer sampleLibrary alice bob (Finite 1500000000)]\<rparr>)"
  by (simp add: run_defs sample_defs toNumber_exact)

text \<open>The amount 1.999999999 SOL moves 1999999999 lamports.\<close>

lemma native_floor_scenario:
  "createTransaction sampleLibrary (sampleLedger 2000000000 0 False) alice bob
     (BigNumber 1999999999 9) nativeOptions
   = ([alice, bob], Inr \<lparr>instructions =
        [SystemProgram_transfer sampleLibrary alice bob (Finite 1999999999)]\<rparr>)"
  by (simp add: run_defs sample_defs toNumber_exact)

section \<open>The claims\<close>

subsection \<open>C1: the converted amount\<close>

text \<open>
  Claim C1, as stated: for every decimal amount whose number of fractional digits is at
  most the effective precision, the integer amount used by createTransaction equals
  \<open>floor (amount * 10 ^ precision)\<close>.  It fails in the native branch, where line 70 turns
  the converted amount into a double: for the amount below the floor is \<open>2 ^ 56 + 1\<close>
  lamports, and the balance check and the transfer instruction use \<open>2 ^ 56\<close>.
\<close>

theorem converted_amount_counterexample:
  "decimalPlaces (BigNumber 72057594037927937 9) \<le> SOL_DECIMALS \<and>
   \<lfloor>valueOf (BigNumber 72057594037927937 9) * 10 ^ SOL_DECIMALS\<rfloor> = 72057594037927937 \<and>
   createTransaction sampleLibrary (sampleLedger 72057594037927936 0 False) alice bob
     (BigNumber 72057594037927937 9) nativeOptions
     = ([alice, bob], Inr \<lparr>instructions =
          [SystemProgram_transfer sampleLibrary alice bob (Finite 72057594037927936)]\<rparr>) \<and>
   SystemProgram_transfer sampleLibrary alice bob (Finite 72057594037927936)
     \<noteq> SystemProgram_transfer sampleLibrary alice bob (Finite 72057594037927937)"
  by (simp add: run_defs sample_defs valueOf_def toNumber_2_56_plus_1)

text \<open>
  Claim C1, amended.  For every decimal amount whose number of fractional digits is at
  most the effective precision, the conversion is the floor in exact arithmetic, and this
  is how createTransaction uses it.  Native branch: when \<open>floor (amount * 10 ^ 9)\<close> is
  below \<open>2 ^ 53\<close> in magnitude, it is the very integer compared with the payer's lamports
  and carried by the transfer instruction (1.999999999 gives 1999999999).  Token branch:
  \<open>floor (amount * 10 ^ decimals)\<close> is the integer handed to the big-integer constructor
  of line 112, which throws exactly when it is \<open>10 ^ 21\<close> or more in magnitude.
\<close>

theorem converted_amount_used:
  assumes "connection payer = Some payerInfo" and "connection recipient = Some recipientInfo"
  shows "(\<forall>need. token opts = None \<and> decimalPlaces amount \<le> SOL_DECIMALS \<and>
            need = \<lfloor>valueOf amount * 10 ^ SOL_DECIMALS\<rfloor> \<and> \<bar>need\<bar> < 2 ^ 53 \<longrightarrow>
            createTransaction lib connection payer recipient amount opts
              = ([payer, recipient],
                 if int (lamports payerInfo) < need then Inl (Error PAYER_INSUFFICIENT_FUNDS)
                 else Inr (assemble (memo opts) (addReferences (references opts)
                        (SystemProgram_transfer lib payer recipient (Finite need)))))) \<and>
         (\<forall>t tokenInfo payerATA payerATAInfo balance need.
            token opts = Some t \<and> connection t = Some tokenInfo \<and>
            owner tokenInfo = TOKEN_PROGRAM_ID lib \<and>
            length (accountData tokenInfo) = MintLayout_span lib \<and>
            isInitialized (MintLayout_decode lib (accountData tokenInfo)) \<and>
            decimalPlaces amount \<le> decimals (MintLayout_decode lib (accountData tokenInfo)) \<and>
            Token_getAssociatedTokenAddress lib (ASSOCIATED_TOKEN_PROGRAM_ID lib)
              (TOKEN_PROGRAM_ID lib) t payer = Some payerATA \<and>
            connection payerATA = Some payerATAInfo \<and>
            AccountLayout_decode lib (accountData payerATAInfo) = Some balance \<and>
            need = \<lfloor>valueOf amount
                      * 10 ^ decimals (MintLayout_decode lib (accountData tokenInfo))\<rfloor> \<longrightarrow>
            (snd (createTransaction lib connection payer recipient amount opts)
               = Inl InvalidCharacter \<longleftrightarrow> 10 ^ 21 \<le> \<bar>need\<bar>))"
proof (intro conjI allI impI)
  fix need
  assume h: "token opts = None \<and> decimalPlaces amount \<le> SOL_DECIMALS \<and>
            need = \<lfloor>valueOf amount * 10 ^ SOL_DECIMALS\<rfloor> \<and> \<bar>need\<bar> < 2 ^ 53"
  then have small: "\<bar>need\<bar> < 2 ^ 53" by (elim conjE)
  from h have conv: "integerValue_ROUND_FLOOR
      (times_BigNumber amount (BigNumber_ofInteger LAMPORTS_PER_SOL)) = need"
    by (simp add: integerValue_is_floor valueOf_times valueOf_LAMPORTS_PER_SOL)
  from small have "toNumber need = Finite need" by (rule toNumber_exact)
  moreover from small have "int64Range (toNumber need)" by (rule toNumber_exact_int64)
  ultimately show "createTransaction lib connection payer recipient amount opts
              = ([payer, recipient],
                 if int (lamports payerInfo) < need then Inl (Error PAYER_INSUFFICIENT_FUNDS)
                 else Inr (assemble (memo opts) (addReferences (references opts)
                        (SystemProgram_transfer lib payer recipient (Finite need)))))"
    using h assms conv
    by (simp add: createTransaction_native nativeTransfer_def Let_def)
next
  fix t tokenInfo payerATA payerATAInfo balance need
  assume h: "token opts = Some t \<and> connection t = Some tokenInfo \<and>
            owner tokenInfo = TOKEN_PROGRAM_ID lib \<and>
            length (accountData tokenInfo) = MintLayout_span lib \<and>
            isInitialized (MintLayout_decode lib (accountData tokenInfo)) \<and>
            decimalPlaces amount \<le> decimals (MintLayout_decode lib (accountData tokenInfo)) \<and>
            Token_getAssociatedTokenAddress lib (ASSOCIATED_TOKEN_PROGRAM_ID lib)
              (TOKEN_PROGRAM_ID lib) t payer = Some payerATA \<and>
            connection payerATA = Some payerATAInfo \<and>
            AccountLayout_decode lib (accountData payerATAInfo) = Some balance \<and>
            need = \<lfloor>valueOf amount
                      * 10 ^ decimals (MintLayout_decode lib (accountData tokenInfo))\<rfloor>"
  then have conv: "integerValue_ROUND_FLOOR (times_BigNumber amount
      (pow TEN (decimals (MintLayout_decode lib (accountData tokenInfo))))) = need"
    by (simp add: integerValue_is_floor valueOf_times valueOf_pow_TEN)
  show "snd (createTransaction lib connection payer recipient amount opts)
               = Inl InvalidCharacter \<longleftrightarrow> 10 ^ 21 \<le> \<bar>need\<bar>"
  proof (cases "\<bar>need\<bar> < 10 ^ 21")
    case True
    then have "BN_gt_bytes need balance = Inr True" by (rule BN_gt_bytes_always)
    with True h assms conv show ?thesis
      by (simp add: createTransaction_token tokenTransfer_def Let_def new_u64_String_def)
  next
    case False
    with h assms conv show ?thesis
      by (simp add: createTransaction_token tokenTransfer_def Let_def new_u64_String_def)
  qed
qed

theorem converted_amount_used_witness:
  "decimalPlaces (BigNumber 1999999999 9) \<le> SOL_DECIMALS \<and>
   1999999999 = \<lfloor>valueOf (BigNumber 1999999999 9) * 10 ^ SOL_DECIMALS\<rfloor> \<and>
   createTransaction sampleLibrary (sampleLedger 2000000000 0 False) alice bob
     (BigNumber 1999999999 9) nativeOptions
     = ([alice, bob], Inr \<lparr>instructions =
          [SystemProgram_transfer sampleLibrary alice bob (Finite 1999999999)]\<rparr>) \<and>
   decimalPlaces (BigNumber 1000000000000000 0) \<le> 6 \<and>
   1000000000000000000000 = \<lfloor>valueOf (BigNumber 1000000000000000 0) * 10 ^ 6\<rfloor> \<and>
   snd (createTransaction sampleLibrary (sampleLedger 0 10000000 True) alice bob
          (BigNumber 1000000000000000 0) tokenOptions) = Inl InvalidCharacter"
proof -
  have p1: "sampleLedger 2000000000 0 False alice = Some (walletAccount 2000000000)"
    and r1: "sampleLedger 2000000000 0 False bob = Some (walletAccount 0)"
    and p2: "sampleLedger 0 10000000 True alice = Some (walletAccount 0)"
    and r2: "sampleLedger 0 10000000 True bob = Some (walletAccount 0)"
    by (simp_all add: sample_defs)
  have d1: "decimalPlaces (BigNumber 1999999999 9) \<le> SOL_DECIMALS"
    by (simp add: decimalPlaces_def SOL_DECIMALS_def)
  have f1: "1999999999 = \<lfloor>valueOf (BigNumber 1999999999 9) * 10 ^ SOL_DECIMALS\<rfloor>"
    by (simp add: valueOf_def SOL_DECIMALS_def)
  have n: "token nativeOptions = None \<and> decimalPlaces (BigNumber 1999999999 9) \<le> SOL_DECIMALS \<and>
           1999999999 = \<lfloor>valueOf (BigNumber 1999999999 9) * 10 ^ SOL_DECIMALS\<rfloor> \<and>
           \<bar>1999999999 :: int\<bar> < 2 ^ 53"
    using d1 f1 by (simp add: nativeOptions_def)
  have d2: "decimalPlaces (BigNumber 1000000000000000 0) \<le> 6"
    by (simp add: decimalPlaces_def)
  have f2: "1000000000000000000000 = \<lfloor>valueOf (BigNumber 1000000000000000 0) * 10 ^ 6\<rfloor>"
    by (simp add: valueOf_def)
  have m: "decimals (MintLayout_decode sampleLibrary (accountData (mintAccount 6 1))) = 6"
    by (simp add: sample_defs nth_append)
  have t: "token tokenOptions = Some coin \<and>
           sampleLedger 0 10000000 True coin = Some (mintAccount 6 1) \<and>
           owner (mintAccount 6 1) = TOKEN_PROGRAM_ID sampleLibrary \<and>
           length (accountData (mintAccount 6 1)) = MintLayout_span sampleLibrary \<and>
           isInitialized (MintLayout_decode sampleLibrary (accountData (mintAccount 6 1))) \<and>
           decimalPlaces (BigNumber 1000000000000000 0)
             \<le> decimals (MintLayout_decode sampleLibrary (accountData (mintAccount 6 1))) \<and>
           Token_getAssociatedTokenAddress sampleLibrary
             (ASSOCIATED_TOKEN_PROGRAM_ID sampleLibrary) (TOKEN_PROGRAM_ID sampleLibrary)
             coin alice = Some (PublicKey ''ata:coin:alice'') \<and>
           sampleLedger 0 10000000 True (PublicKey ''ata:coin:alice'')
             = Some (tokenAccount 10000000) \<and>
           AccountLayout_decode sampleLibrary (accountData (tokenAccount 10000000))
             = Some 10000000 \<and>
           1000000000000000000000 = \<lfloor>valueOf (BigNumber 1000000000000000 0)
              * 10 ^ decimals (MintLayout_decode sampleLibrary (accountData (mintAccount 6 1)))\<rfloor>"
    using d2 f2 by (simp add: m) (simp add: sample_defs nth_append)
  from converted_amount_used [OF p1 r1, THEN conjunct1, rule_format, OF n]
  have a: "createTransaction sampleLibrary (sampleLedger 2000000000 0 False) alice bob
     (BigNumber 1999999999 9) nativeOptions
     = ([alice, bob], Inr \<lparr>instructions =
          [SystemProgram_transfer sampleLibrary alice bob (Finite 1999999999)]\<rparr>)"
    by (simp add: walletAccount_def nativeOptions_def assemble_def addReferences_def)
  from converted_amount_used [OF p2 r2, THEN conjunct2, rule_format, OF t]
  have b: "snd (createTransaction sampleLibrary (sampleLedger 0 10000000 True) alice bob
          (BigNumber 1000000000000000 0) tokenOptions) = Inl InvalidCharacter"
    by simp
  from d1 f1 a d2 f2 b show ?thesis by blast
qed

subsection \<open>C2: too many fractional digits\<close>

text \<open>
  Claim C2.  Once the payer and the recipient are resolved (and, in the token branch, the
  mint is validated), an amount with strictly more fractional digits than the effective
  precision makes createTransaction fail with AMOUNT_INVALID_DECIMALS.  Nothing after
  that point is done: the ledger calls are those made before the check (no associated
  token account is looked up), and the outcome is the same for every balance.
\<close>

theorem excess_precision_rejected:
  assumes "connection payer = Some payerInfo" and "connection recipient = Some recipientInfo"
  shows "(token opts = None \<and> SOL_DECIMALS < decimalPlaces amount \<longrightarrow>
            createTransaction lib connection payer recipient amount opts
              = ([payer, recipient], Inl (Error AMOUNT_INVALID_DECIMALS))) \<and>
         (\<forall>t tokenInfo.
            token opts = Some t \<and> connection t = Some tokenInfo \<and>
            owner tokenInfo = TOKEN_PROGRAM_ID lib \<and>
            length (accountData tokenInfo) = MintLayout_span lib \<and>
            isInitialized (MintLayout_decode lib (accountData tokenInfo)) \<and>
            decimals (MintLayout_decode lib (accountData tokenInfo)) < decimalPlaces amount \<longrightarrow>
            createTransaction lib connection payer recipient amount opts
              = ([payer, recipient, t], Inl (Error AMOUNT_INVALID_DECIMALS)))"
  using assms
  by (simp add: createTransaction_native createTransaction_token nativeTransfer_def
      tokenTransfer_def Let_def)

theorem excess_precision_rejected_witness:
  "sampleLedger 5 0 False alice = Some (walletAccount 5) \<and>
   sampleLedger 5 0 False bob = Some (walletAccount 0) \<and>
   SOL_DECIMALS < decimalPlaces (BigNumber 1 10) \<and>
   createTransaction sampleLibrary (sampleLedger 5 0 False) alice bob (BigNumber 1 10)
     nativeOptions = ([alice, bob], Inl (Error AMOUNT_INVALID_DECIMALS)) \<and>
   decimals (MintLayout_decode sampleLibrary (accountData (mintAccount 6 1)))
     < decimalPlaces (BigNumber 1 7) \<and>
   createTransaction sampleLibrary (sampleLedger 5 0 False) alice bob (BigNumber 1 7)
     tokenOptions = ([alice, bob, coin], Inl (Error AMOUNT_INVALID_DECIMALS))"
proof -
  have p: "sampleLedger 5 0 False alice = Some (walletAccount 5)"
    and r: "sampleLedger 5 0 False bob = Some (walletAccount 0)"
    by (simp_all add: sample_defs)
  have n: "token nativeOptions = None \<and> SOL_DECIMALS < decimalPlaces (BigNumber 1 10)"
    by (simp add: nativeOptions_def decimalPlaces_def SOL_DECIMALS_def)
  have t: "token tokenOptions = Some coin \<and>
           sampleLedger 5 0 False coin = Some (mintAccount 6 1) \<and>
           owner (mintAccount 6 1) = TOKEN_PROGRAM_ID sampleLibrary \<and>
           length (accountData (mintAccount 6 1)) = MintLayout_span sampleLibrary \<and>
           isInitialized (MintLayout_decode sampleLibrary (accountData (mintAccount 6 1))) \<and>
           decimals (MintLayout_decode sampleLibrary (accountData (mintAccount 6 1)))
             < decimalPlaces (BigNumber 1 7)"
    by (simp add: sample_defs decimalPlaces_def nth_append)
  note rejected = excess_precision_rejected [OF p r]
  from rejected [THEN conjunct1, rule_format, OF n]
  have a: "createTransaction sampleLibrary (sampleLedger 5 0 False) alice bob (BigNumber 1 10)
     nativeOptions = ([alice, bob], Inl (Error AMOUNT_INVALID_DECIMALS))" .
  from rejected [THEN conjunct2, rule_format, OF t]
  have b: "createTransaction sampleLibrary (sampleLedger 5 0 False) alice bob (BigNumber 1 7)
     tokenOptions = ([alice, bob, coin], Inl (Error AMOUNT_INVALID_DECIMALS))" .
  from p r n t a b show ?thesis by blast
qed

subsection \<open>C3: insufficient funds\<close>

text \<open>
  Claim C3, as stated: createTransaction fails with PAYER_INSUFFICIENT_FUNDS (native) or
  PAYER_ATA_INSUFFICIENT_FUNDS (token) if and only if the converted integer amount is
  strictly greater than the payer's balance.  It fails in the native branch: the payer
  below holds \<open>2 ^ 55\<close> lamports, the converted amount is \<open>2 ^ 55 + 1\<close>, and the call
  returns a transaction, because line 70 turns the amount into a double before line 71
  compares it.
\<close>

theorem insufficient_funds_counterexample:
  "sampleLedger 36028797018963968 0 False alice = Some (walletAccount 36028797018963968) \<and>
   int (lamports (walletAccount 36028797018963968))
     < integerValue_ROUND_FLOOR
         (times_BigNumber (BigNumber 36028797018963969 9) (BigNumber_ofInteger LAMPORTS_PER_SOL)) \<and>
   createTransaction sampleLibrary (sampleLedger 36028797018963968 0 False) alice bob
     (BigNumber 36028797018963969 9) nativeOptions
     = ([alice, bob], Inr \<lparr>instructions =
          [SystemProgram_transfer sampleLibrary alice bob (Finite 36028797018963968)]\<rparr>)"
  by (simp add: run_defs sample_defs toNumber_2_55_plus_1)

text \<open>
  Claim C3, amended.  In the native branch, with the payer and the recipient resolved,
  at most 9 fractional digits and a converted amount below \<open>2 ^ 53\<close> in magnitude,
  createTransaction fails with PAYER_INSUFFICIENT_FUNDS if and only if the converted
  amount is strictly greater than the payer's lamports, and never with
  PAYER_ATA_INSUFFICIENT_FUNDS; a balance equal to the amount is sufficient, and the call
  then returns a transaction.
\<close>

theorem insufficient_funds_iff:
  assumes "connection payer = Some payerInfo" and "connection recipient = Some recipientInfo"
    and "token opts = None" and "decimalPlaces amount \<le> SOL_DECIMALS"
    and "need = integerValue_ROUND_FLOOR
                  (times_BigNumber amount (BigNumber_ofInteger LAMPORTS_PER_SOL))"
    and "\<bar>need\<bar> < 2 ^ 53"
  shows "(snd (createTransaction lib connection payer recipient amount opts)
            = Inl (Error PAYER_INSUFFICIENT_FUNDS) \<longleftrightarrow> int (lamports payerInfo) < need) \<and>
         snd (createTransaction lib connection payer recipient amount opts)
            \<noteq> Inl (Error PAYER_ATA_INSUFFICIENT_FUNDS) \<and>
         (need \<le> int (lamports payerInfo) \<longrightarrow>
            (\<exists>tx. snd (createTransaction lib connection payer recipient amount opts) = Inr tx))"
proof -
  from assms(6) have "toNumber need = Finite need" by (rule toNumber_exact)
  moreover from assms(6) have "int64Range (toNumber need)" by (rule toNumber_exact_int64)
  ultimately show ?thesis
    using assms(1-5)
    by (simp add: createTransaction_native nativeTransfer_def Let_def)
qed

theorem insufficient_funds_iff_witness:
  "decimalPlaces (BigNumber 15 1) \<le> SOL_DECIMALS \<and>
   snd (createTransaction sampleLibrary (sampleLedger 1499999999 0 False) alice bob
          (BigNumber 15 1) nativeOptions) = Inl (Error PAYER_INSUFFICIENT_FUNDS) \<and>
   snd (createTransaction sampleLibrary (sampleLedger 1500000000 0 False) alice bob
          (BigNumber 15 1) nativeOptions)
     = Inr \<lparr>instructions =
          [SystemProgram_transfer sampleLibrary alice bob (Finite 1500000000)]\<rparr>"
proof -
  have p1: "sampleLedger 1499999999 0 False alice = Some (walletAccount 1499999999)"
    and r1: "sampleLedger 1499999999 0 False bob = Some (walletAccount 0)"
    and p2: "sampleLedger 1500000000 0 False alice = Some (walletAccount 1500000000)"
    and r2: "sampleLedger 1500000000 0 False bob = Some (walletAccount 0)"
    by (simp_all add: sample_defs)
  have o: "token nativeOptions = None"
    by (simp add: nativeOptions_def)
  have d: "decimalPlaces (BigNumber 15 1) \<le> SOL_DECIMALS"
    by (simp add: decimalPlaces_def SOL_DECIMALS_def)
  have n: "1500000000 = integerValue_ROUND_FLOOR
             (times_BigNumber (BigNumber 15 1) (BigNumber_ofInteger LAMPORTS_PER_SOL))"
    by (simp add: run_defs)
  have b: "\<bar>1500000000 :: int\<bar> < 2 ^ 53"
    by simp
  have run: "snd (createTransaction sampleLibrary (sampleLedger 1500000000 0 False) alice bob
          (BigNumber 15 1) nativeOptions)
     = Inr \<lparr>instructions =
          [SystemProgram_transfer sampleLibrary alice bob (Finite 1500000000)]\<rparr>"
    by (simp add: run_defs sample_defs toNumber_exact)
  from insufficient_funds_iff [OF p1 r1 o d n b, of sampleLibrary]
  have short: "snd (createTransaction sampleLibrary (sampleLedger 1499999999 0 False) alice bob
          (BigNumber 15 1) nativeOptions) = Inl (Error PAYER_INSUFFICIENT_FUNDS)"
    by (simp add: walletAccount_def)
  from insufficient_funds_iff [OF p2 r2 o d n b, of sampleLibrary]
  have "\<exists>tx. snd (createTransaction sampleLibrary (sampleLedger 1500000000 0 False) alice bob
          (BigNumber 15 1) nativeOptions) = Inr tx"
    by (simp add: walletAccount_def)
  with d short run show ?thesis by blast
qed

subsection \<open>C4: the native comparison\<close>

text \<open>
  Claim C4, as stated: in the native branch the insufficient-funds decision agrees with
  the exact comparison of the converted amount with the payer's balance, whatever the
  magnitude of the amount.  It fails: the payer below holds \<open>2 ^ 54\<close> lamports, the
  converted amount is \<open>2 ^ 54 + 1\<close>, and the call returns a transaction for \<open>2 ^ 54\<close>
  lamports.
\<close>

theorem native_comparison_counterexample:
  "sampleLedger 18014398509481984 0 False alice = Some (walletAccount 18014398509481984) \<and>
   int (lamports (walletAccount 18014398509481984))
     < integerValue_ROUND_FLOOR
         (times_BigNumber (BigNumber 18014398509481985 9) (BigNumber_ofInteger LAMPORTS_PER_SOL)) \<and>
   createTransaction sampleLibrary (sampleLedger 18014398509481984 0 False) alice bob
     (BigNumber 18014398509481985 9) nativeOptions
     = ([alice, bob], Inr \<lparr>instructions =
          [SystemProgram_transfer sampleLibrary alice bob (Finite 18014398509481984)]\<rparr>)"
  by (simp add: run_defs sample_defs toNumber_2_54_plus_1)

text \<open>
  Claim C4, amended.  In the native branch the insufficient-funds decision is the
  comparison of two doubles, the converted amount as \<open>toNumber\<close> gives it and the payer's
  lamports; it agrees with the exact comparison whenever the converted amount is below
  \<open>2 ^ 53\<close> in magnitude.
\<close>

theorem native_comparison_on_doubles:
  assumes "connection payer = Some payerInfo" and "connection recipient = Some recipientInfo"
    and "token opts = None" and "decimalPlaces amount \<le> SOL_DECIMALS"
    and "need = integerValue_ROUND_FLOOR
                  (times_BigNumber amount (BigNumber_ofInteger LAMPORTS_PER_SOL))"
  shows "(snd (createTransaction lib connection payer recipient amount opts)
            = Inl (Error PAYER_INSUFFICIENT_FUNDS)
          \<longleftrightarrow> number_gt (toNumber need) (lamports payerInfo)) \<and>
         (\<bar>need\<bar> < 2 ^ 53 \<longrightarrow>
            (snd (createTransaction lib connection payer recipient amount opts)
               = Inl (Error PAYER_INSUFFICIENT_FUNDS) \<longleftrightarrow> int (lamports payerInfo) < need))"
proof -
  have "snd (createTransaction lib connection payer recipient amount opts)
            = Inl (Error PAYER_INSUFFICIENT_FUNDS)
          \<longleftrightarrow> number_gt (toNumber need) (lamports payerInfo)"
    using assms by (simp add: createTransaction_native nativeTransfer_def Let_def)
  moreover have "number_gt (toNumber need) (lamports payerInfo) \<longleftrightarrow> int (lamports payerInfo) < need"
    if "\<bar>need\<bar> < 2 ^ 53"
    using that by (simp add: toNumber_exact)
  ultimately show ?thesis by simp
qed

theorem native_comparison_on_doubles_witness:
  "sampleLedger 1500000000 0 False alice = Some (walletAccount 1500000000) \<and>
   sampleLedger 1500000000 0 False bob = Some (walletAccount 0) \<and>
   token nativeOptions = None \<and>
   decimalPlaces (BigNumber 15 1) \<le> SOL_DECIMALS \<and>
   \<bar>1500000000 :: int\<bar> < 2 ^ 53 \<and>
   snd (createTransaction sampleLibrary (sampleLedger 1500000000 0 False) alice bob
          (BigNumber 15 1) nativeOptions) \<noteq> Inl (Error PAYER_INSUFFICIENT_FUNDS)"
proof -
  have p: "sampleLedger 1500000000 0 False alice = Some (walletAccount 1500000000)"
    and r: "sampleLedger 1500000000 0 False bob = Some (walletAccount 0)"
    by (simp_all add: sample_defs)
  have o: "token nativeOptions = None"
    by (simp add: nativeOptions_def)
  have d: "decimalPlaces (BigNumber 15 1) \<le> SOL_DECIMALS"
    by (simp add: decimalPlaces_def SOL_DECIMALS_def)
  have n: "1500000000 = integerValue_ROUND_FLOOR
             (times_BigNumber (BigNumber 15 1) (BigNumber_ofInteger LAMPORTS_PER_SOL))"
    by (simp add: run_defs)
  have b: "\<bar>1500000000 :: int\<bar> < 2 ^ 53"
    by simp
  from native_comparison_on_doubles [OF p r o d n, THEN conjunct2, rule_format, OF b]
  have "snd (createTransaction sampleLibrary (sampleLedger 1500000000 0 False) alice bob
          (BigNumber 15 1) nativeOptions) \<noteq> Inl (Error PAYER_INSUFFICIENT_FUNDS)"
    by (simp add: walletAccount_def)
  with p r o d b show ?thesis by blast
qed

subsection \<open>C5: the order of the mint checks\<close>

text \<open>
  Claim C5.  When a token address is supplied (and the payer and the recipient are
  resolved), the mint checks run in this order and exclude one another: no account at
  the address gives TOKEN_NOT_FOUND; an account owned by another program than the token
  program gives TOKEN_INVALID_PROGRAM; the right owner and a data length other than the
  mint record size gives TOKEN_INVALID_LENGTH; the right owner and length and a decoded
  mint that is not initialised gives TOKEN_MINT_NOT_INITIALIZED; and a mint that passes
  all four gives none of these errors.
\<close>

theorem mint_validation_order:
  assumes "connection payer = Some payerInfo" and "connection recipient = Some recipientInfo"
    and "token opts = Some t"
  shows "(connection t = None \<longrightarrow>
            createTransaction lib connection payer recipient amount opts
              = ([payer, recipient, t], Inl (Error TOKEN_NOT_FOUND))) \<and>
         (\<forall>tokenInfo. connection t = Some tokenInfo \<longrightarrow>
            (owner tokenInfo \<noteq> TOKEN_PROGRAM_ID lib \<longrightarrow>
               createTransaction lib connection payer recipient amount opts
                 = ([payer, recipient, t], Inl (Error TOKEN_INVALID_PROGRAM))) \<and>
            (owner tokenInfo = TOKEN_PROGRAM_ID lib \<and>
             length (accountData tokenInfo) \<noteq> MintLayout_span lib \<longrightarrow>
               createTransaction lib connection payer recipient amount opts
                 = ([payer, recipient, t], Inl (Error TOKEN_INVALID_LENGTH))) \<and>
            (owner tokenInfo = TOKEN_PROGRAM_ID lib \<and>
             length (accountData tokenInfo) = MintLayout_span lib \<and>
             \<not> isInitialized (MintLayout_decode lib (accountData tokenInfo)) \<longrightarrow>
               createTransaction lib connection payer recipient amount opts
                 = ([payer, recipient, t], Inl (Error TOKEN_MINT_NOT_INITIALIZED))) \<and>
            (owner tokenInfo = TOKEN_PROGRAM_ID lib \<and>
             length (accountData tokenInfo) = MintLayout_span lib \<and>
             isInitialized (MintLayout_decode lib (accountData tokenInfo)) \<longrightarrow>
               snd (createTransaction lib connection payer recipient amount opts)
                 \<notin> {Inl (Error TOKEN_NOT_FOUND), Inl (Error TOKEN_INVALID_PROGRAM), Inl (Error TOKEN_INVALID_LENGTH),
                      Inl (Error TOKEN_MINT_NOT_INITIALIZED)}))"
  using assms
  by (auto simp add: createTransaction_token tokenTransfer_def Let_def
      dest!: new_u64_String_Inl BN_gt_bytes_Inl split: option.splits sum.splits bool.splits)

theorem mint_validation_order_witness:
  "createTransaction sampleLibrary (sampleLedger 0 0 True) alice bob (BigNumber 1 0)
     (tokenOptions\<lparr>token := Some (PublicKey ''nothing'')\<rparr>)
     = ([alice, bob, PublicKey ''nothing''], Inl (Error TOKEN_NOT_FOUND)) \<and>
   createTransaction sampleLibrary (sampleLedger 0 0 True) alice bob (BigNumber 1 0)
     (tokenOptions\<lparr>token := Some bob\<rparr>)
     = ([alice, bob, bob], Inl (Error TOKEN_INVALID_PROGRAM)) \<and>
   createTransaction sampleLibrary (sampleLedger 0 0 True) alice bob (BigNumber 1 0)
     (tokenOptions\<lparr>token := Some (PublicKey ''ata:coin:alice'')\<rparr>)
     = ([alice, bob, PublicKey ''ata:coin:alice''], Inl (Error TOKEN_INVALID_LENGTH)) \<and>
   createTransaction sampleLibrary (sampleLedger 0 0 True) alice bob (BigNumber 1 0)
     (tokenOptions\<lparr>token := Some blankCoin\<rparr>)
     = ([alice, bob, blankCoin], Inl (Error TOKEN_MINT_NOT_INITIALIZED))"
proof -
  let ?ledger = "sampleLedger 0 0 True"
  have p: "?ledger alice = Some (walletAccount 0)"
    and r: "?ledger bob = Some (walletAccount 0)"
    by (simp_all add: sample_defs)
  have absent: "?ledger (PublicKey ''nothing'') = None"
    by (simp add: sample_defs)
  have wallet: "owner (walletAccount 0) \<noteq> TOKEN_PROGRAM_ID sampleLibrary"
    by (simp add: sample_defs)
  have account: "?ledger (PublicKey ''ata:coin:alice'') = Some (tokenAccount 0)"
    and long: "owner (tokenAccount 0) = TOKEN_PROGRAM_ID sampleLibrary \<and>
           length (accountData (tokenAccount 0)) \<noteq> MintLayout_span sampleLibrary"
    by (simp_all add: sample_defs)
  have blank: "?ledger blankCoin = Some (mintAccount 0 0)"
    and fresh: "owner (mintAccount 0 0) = TOKEN_PROGRAM_ID sampleLibrary \<and>
           length (accountData (mintAccount 0 0)) = MintLayout_span sampleLibrary \<and>
           \<not> isInitialized (MintLayout_decode sampleLibrary (accountData (mintAccount 0 0)))"
    by (simp_all add: sample_defs nth_append)
  have t: "token (tokenOptions\<lparr>token := Some k\<rparr>) = Some k" for k
    by simp
  note order = mint_validation_order [OF p r t]
  from order [THEN conjunct1, rule_format, OF absent]
  have "createTransaction sampleLibrary ?ledger alice bob (BigNumber 1 0)
     (tokenOptions\<lparr>token := Some (PublicKey ''nothing'')\<rparr>)
     = ([alice, bob, PublicKey ''nothing''], Inl (Error TOKEN_NOT_FOUND))" .
  moreover from order [THEN conjunct2, rule_format, OF r, THEN conjunct1, rule_format, OF wallet]
  have "createTransaction sampleLibrary ?ledger alice bob (BigNumber 1 0)
     (tokenOptions\<lparr>token := Some bob\<rparr>)
     = ([alice, bob, bob], Inl (Error TOKEN_INVALID_PROGRAM))" .
  moreover from order [THEN conjunct2, rule_format, OF account,
      THEN conjunct2, THEN conjunct1, rule_format, OF long]
  have "createTransaction sampleLibrary ?ledger alice bob (BigNumber 1 0)
     (tokenOptions\<lparr>token := Some (PublicKey ''ata:coin:alice'')\<rparr>)
     = ([alice, bob, PublicKey ''ata:coin:alice''], Inl (Error TOKEN_INVALID_LENGTH))" .
  moreover from order [THEN conjunct2, rule_format, OF blank,
      THEN conjunct2, THEN conjunct2, THEN conjunct1, rule_format, OF fresh]
  have "createTransaction sampleLibrary ?ledger alice bob (BigNumber 1 0)
     (tokenOptions\<lparr>token := Some blankCoin\<rparr>)
     = ([alice, bob, blankCoin], Inl (Error TOKEN_MINT_NOT_INITIALIZED))" .
  ultimately show ?thesis by blast
qed

subsection \<open>C6: the recipient's associated token account\<close>

text \<open>
  Claim C6: in the token branch, when the recipient's associated token account does not
  exist, createTransaction fails with RECIPIENT_ATA_NOT_FOUND.  The code does not: line
  113 compares the token amount with the undecoded bytes of the payer's balance, finds it
  greater whatever the balance, and throws PAYER_ATA_INSUFFICIENT_FUNDS before the
  recipient's account is looked up.  Below, alice holds exactly the 10000000 base units
  she sends (10 units of a mint with six decimals) and bob has no token account.
\<close>

theorem recipient_ata_not_reached:
  "sampleLedger 0 10000000 False (PublicKey ''ata:coin:alice'') = Some (tokenAccount 10000000) \<and>
   sampleLedger 0 10000000 False (PublicKey ''ata:coin:bob'') = None \<and>
   createTransaction sampleLibrary (sampleLedger 0 10000000 False) alice bob (BigNumber 10 0)
     tokenOptions
     = ([alice, bob, coin, PublicKey ''ata:coin:alice''],
        Inl (Error PAYER_ATA_INSUFFICIENT_FUNDS))"
  by (simp add: run_defs sample_defs nth_append)

subsection \<open>C7: the memo instruction\<close>

text \<open>
  Claim C7.  For every memo string supplied by the caller, the empty string included,
  the returned transaction holds exactly two instructions: first the transfer instruction
  (the one the same call returns when no memo is supplied), second a memo instruction
  whose program is the fixed memo program, whose account list is empty and whose data is
  the UTF-8 encoding of the memo.  With no memo the transaction holds exactly one
  instruction.
\<close>

theorem memo_instruction_second:
  assumes "createTransaction lib connection payer recipient amount opts = (qs, Inr tx)"
  shows "\<exists>transfer.
           createTransaction lib connection payer recipient amount (opts\<lparr>memo := None\<rparr>)
             = (qs, Inr \<lparr>instructions = [transfer]\<rparr>) \<and>
           (memo opts = None \<longrightarrow> instructions tx = [transfer]) \<and>
           (\<forall>s. memo opts = Some s \<longrightarrow>
              instructions tx =
                [transfer, \<lparr>programId = MEMO_PROGRAM_ID, keys = [], data = Buffer_from_utf8 s\<rparr>])"
proof -
  from assms obtain ix where
    all: "\<And>refs m. createTransaction lib connection payer recipient amount
        (opts\<lparr>references := refs, memo := m\<rparr>) = (qs, Inr (assemble m (addReferences refs ix)))"
    and tx: "tx = assemble (memo opts) (addReferences (references opts) ix)"
    using createTransaction_Inr by blast
  have "opts\<lparr>references := references opts, memo := None\<rparr> = opts\<lparr>memo := None\<rparr>"
    by simp
  with all [where refs = "references opts" and m = None]
  have "createTransaction lib connection payer recipient amount (opts\<lparr>memo := None\<rparr>)
          = (qs, Inr \<lparr>instructions = [addReferences (references opts) ix]\<rparr>)"
    by (simp add: assemble_def)
  with tx show ?thesis
    by (auto simp add: assemble_def memoInstruction_def)
qed

theorem memo_instruction_second_witness:
  "createTransaction sampleLibrary (sampleLedger 2000000000 0 False) alice bob (BigNumber 15 1)
     (nativeOptions\<lparr>memo := Some []\<rparr>)
     = ([alice, bob], Inr \<lparr>instructions =
          [SystemProgram_transfer sampleLibrary alice bob (Finite 1500000000),
           \<lparr>programId = MEMO_PROGRAM_ID, keys = [], data = []\<rparr>]\<rparr>) \<and>
   instructions \<lparr>instructions =
          [SystemProgram_transfer sampleLibrary alice bob (Finite 1500000000),
           \<lparr>programId = MEMO_PROGRAM_ID, keys = [], data = []\<rparr>]\<rparr>
     = [SystemProgram_transfer sampleLibrary alice bob (Finite 1500000000),
        \<lparr>programId = MEMO_PROGRAM_ID, keys = [], data = Buffer_from_utf8 []\<rparr>]"
proof -
  let ?transfer = "SystemProgram_transfer sampleLibrary alice bob (Finite 1500000000)"
  let ?tx = "\<lparr>instructions = [?transfer, \<lparr>programId = MEMO_PROGRAM_ID, keys = [], data = []\<rparr>]\<rparr>"
  have run: "createTransaction sampleLibrary (sampleLedger 2000000000 0 False) alice bob
     (BigNumber 15 1) (nativeOptions\<lparr>memo := Some []\<rparr>) = ([alice, bob], Inr ?tx)"
    by (simp add: run_defs sample_defs toNumber_exact)
  from memo_instruction_second [OF run] obtain transfer where
    plain: "createTransaction sampleLibrary (sampleLedger 2000000000 0 False) alice bob
        (BigNumber 15 1) (nativeOptions\<lparr>memo := Some [], memo := None\<rparr>)
        = ([alice, bob], Inr \<lparr>instructions = [transfer]\<rparr>)"
    and two: "\<forall>s. memo (nativeOptions\<lparr>memo := Some []\<rparr>) = Some s \<longrightarrow>
        instructions ?tx
          = [transfer, \<lparr>programId = MEMO_PROGRAM_ID, keys = [], data = Buffer_from_utf8 s\<rparr>]"
    by blast
  have "nativeOptions\<lparr>memo := Some [], memo := None\<rparr> = nativeOptions"
    by (simp add: nativeOptions_def)
  with plain native_scenario have "transfer = ?transfer"
    by simp
  with two have "instructions ?tx
      = [?transfer, \<lparr>programId = MEMO_PROGRAM_ID, keys = [], data = Buffer_from_utf8 []\<rparr>]"
    by simp
  with run show ?thesis by blast
qed

subsection \<open>C8: the reference keys\<close>

text \<open>
  Claim C8.  For every non-empty list of references, whichever branch built the transfer
  instruction, its account list ends with exactly those addresses, each neither writable
  nor signing, in the order given, and the accounts before them are those of the
  instruction built without references.
\<close>

theorem references_appended:
  assumes "createTransaction lib connection payer recipient amount opts = (qs, Inr tx)"
    and "references opts = Some refs" and "refs \<noteq> []"
  shows "\<exists>transfer rest.
           createTransaction lib connection payer recipient amount (opts\<lparr>references := None\<rparr>)
             = (qs, Inr \<lparr>instructions = transfer # rest\<rparr>) \<and>
           instructions tx =
             transfer\<lparr>keys := keys transfer @
                map (\<lambda>k. \<lparr>pubkey = k, isSigner = False, isWritable = False\<rparr>) refs\<rparr> # rest"
proof -
  from assms(1) obtain ix where
    all: "\<And>refs m. createTransaction lib connection payer recipient amount
        (opts\<lparr>references := refs, memo := m\<rparr>) = (qs, Inr (assemble m (addReferences refs ix)))"
    and tx: "tx = assemble (memo opts) (addReferences (references opts) ix)"
    using createTransaction_Inr by blast
  have "opts\<lparr>references := None, memo := memo opts\<rparr> = opts\<lparr>references := None\<rparr>"
    by simp
  with all [where refs = None and m = "memo opts"]
  have "createTransaction lib connection payer recipient amount (opts\<lparr>references := None\<rparr>)
          = (qs, Inr (assemble (memo opts) ix))"
    by (simp add: addReferences_def)
  moreover have "referenceKey = (\<lambda>k. \<lparr>pubkey = k, isSigner = False, isWritable = False\<rparr>)"
    by (rule ext) (simp add: referenceKey_def)
  ultimately show ?thesis using tx assms(2,3)
    by (cases "memo opts") (simp_all add: assemble_def addReferences_def)
qed

theorem references_appended_witness:
  "references (nativeOptions\<lparr>references := Some [PublicKey ''ref1'', PublicKey ''ref2'']\<rparr>)
     = Some [PublicKey ''ref1'', PublicKey ''ref2''] \<and>
   [PublicKey ''ref1'', PublicKey ''ref2''] \<noteq> [] \<and>
   createTransaction sampleLibrary (sampleLedger 2000000000 0 False) alice bob (BigNumber 15 1)
     (nativeOptions\<lparr>references := Some [PublicKey ''ref1'', PublicKey ''ref2'']\<rparr>)
     = ([alice, bob],
        Inr \<lparr>instructions =
          [\<lparr>programId = systemProgramId,
            keys = [\<lparr>pubkey = alice, isSigner = True, isWritable = True\<rparr>,
                    \<lparr>pubkey = bob, isSigner = False, isWritable = True\<rparr>,
                    \<lparr>pubkey = PublicKey ''ref1'', isSigner = False, isWritable = False\<rparr>,
                    \<lparr>pubkey = PublicKey ''ref2'', isSigner = False, isWritable = False\<rparr>],
            data = data (SystemProgram_transfer sampleLibrary alice bob (Finite 1500000000))\<rparr>]\<rparr>)"
proof -
  let ?refs = "[PublicKey ''ref1'', PublicKey ''ref2'']"
  let ?opts = "nativeOptions\<lparr>references := Some ?refs\<rparr>"
  let ?plain = "SystemProgram_transfer sampleLibrary alice bob (Finite 1500000000)"
  obtain qs tx where run:
    "createTransaction sampleLibrary (sampleLedger 2000000000 0 False) alice bob (BigNumber 15 1)
       ?opts = (qs, Inr tx)"
    by (simp add: run_defs sample_defs toNumber_exact)
  have given: "references ?opts = Some ?refs" and some: "?refs \<noteq> []"
    by simp_all
  from references_appended [OF run given some] obtain transfer rest where
    plain: "createTransaction sampleLibrary (sampleLedger 2000000000 0 False) alice bob
        (BigNumber 15 1) (?opts\<lparr>references := None\<rparr>) = (qs, Inr \<lparr>instructions = transfer # rest\<rparr>)"
    and appended: "instructions tx =
        transfer\<lparr>keys := keys transfer @
           map (\<lambda>k. \<lparr>pubkey = k, isSigner = False, isWritable = False\<rparr>) ?refs\<rparr> # rest"
    by blast
  have "?opts\<lparr>references := None\<rparr> = nativeOptions"
    by (simp add: nativeOptions_def)
  with plain native_scenario
  have "qs = [alice, bob]" and "transfer = ?plain" and "rest = []"
    by simp_all
  with appended have "tx = \<lparr>instructions =
      [?plain\<lparr>keys := keys ?plain @
           map (\<lambda>k. \<lparr>pubkey = k, isSigner = False, isWritable = False\<rparr>) ?refs\<rparr>]\<rparr>"
    by (cases tx) simp
  with run \<open>qs = _\<close> given some show ?thesis
    by (simp add: sample_defs)
qed

subsection \<open>C9: negative amounts\<close>

text \<open>
  Claim C9, as stated: for every strictly negative amount with at most 9 fractional
  digits, the native branch returns a transaction whose transfer instruction carries
  the negative value \<open>floor (amount * 10 ^ 9)\<close>.  The value carried is not always that
  one: for the amount below the floor is \<open>- (2 ^ 54 + 1)\<close> and the instruction is built
  for \<open>- 2 ^ 54\<close> lamports, the double that \<open>toNumber\<close> gives at line 70.
\<close>

theorem negative_amount_counterexample:
  "valueOf (BigNumber (- 18014398509481985) 9) < 0 \<and>
   decimalPlaces (BigNumber (- 18014398509481985) 9) \<le> SOL_DECIMALS \<and>
   integerValue_ROUND_FLOOR
     (times_BigNumber (BigNumber (- 18014398509481985) 9) (BigNumber_ofInteger LAMPORTS_PER_SOL))
     = - 18014398509481985 \<and>
   createTransaction sampleLibrary (sampleLedger 0 0 False) alice bob
     (BigNumber (- 18014398509481985) 9) nativeOptions
     = ([alice, bob], Inr \<lparr>instructions =
          [SystemProgram_transfer sampleLibrary alice bob (Finite (- 18014398509481984))]\<rparr>) \<and>
   SystemProgram_transfer sampleLibrary alice bob (Finite (- 18014398509481984))
     \<noteq> SystemProgram_transfer sampleLibrary alice bob (Finite (- 18014398509481985))"
  by (simp add: run_defs sample_defs valueOf_def toNumber_minus_2_54_minus_1)

text \<open>
  Claim C9, amended.  createTransaction makes no check that the amount is not negative:
  for every strictly negative amount with at most 9 fractional digits, in the native
  branch with the payer and the recipient resolved, \<open>floor (amount * 10 ^ 9)\<close> is
  negative, the balance comparison lets it through, and line 74 is reached with the
  double nearest to that value, which is negative.  When the floor is not below
  \<open>- 2 ^ 63\<close> that double is within the signed 64-bit range and the call returns a
  transaction whose transfer instruction is built for it; it is the floor itself when
  the floor is below \<open>2 ^ 53\<close> in magnitude.  When the double is outside the range,
  \<open>SystemProgram.transfer\<close> throws a RangeError and no transaction is returned.
\<close>

theorem negative_amount_accepted:
  assumes "connection payer = Some payerInfo" and "connection recipient = Some recipientInfo"
    and "token opts = None" and "valueOf amount < 0" and "decimalPlaces amount \<le> SOL_DECIMALS"
    and "need = \<lfloor>valueOf amount * 10 ^ SOL_DECIMALS\<rfloor>"
  shows "need < 0 \<and>
         number_negative (toNumber need) \<and>
         createTransaction lib connection payer recipient amount opts
           = ([payer, recipient],
              if int64Range (toNumber need)
              then Inr (assemble (memo opts) (addReferences (references opts)
                          (SystemProgram_transfer lib payer recipient (toNumber need))))
              else Inl RangeError) \<and>
         (- (2 ^ 63) \<le> need \<longrightarrow> int64Range (toNumber need)) \<and>
         (\<bar>need\<bar> < 2 ^ 53 \<longrightarrow> toNumber need = Finite need)"
proof -
  have "valueOf amount * 10 ^ SOL_DECIMALS < 0"
    using assms(4) by (simp add: mult_less_0_iff)
  then have neg: "need < 0"
    using assms(6) by (simp add: floor_less_iff)
  have conv: "integerValue_ROUND_FLOOR
               (times_BigNumber amount (BigNumber_ofInteger LAMPORTS_PER_SOL)) = need"
    using assms(6) by (simp add: integerValue_is_floor valueOf_times valueOf_LAMPORTS_PER_SOL)
  from neg have nn: "number_negative (toNumber need)" by (rule toNumber_negative)
  then have "\<not> number_gt (toNumber need) (lamports payerInfo)" by (rule negative_not_gt)
  with assms(1,2,3,5) conv
  have run: "createTransaction lib connection payer recipient amount opts
           = ([payer, recipient],
              if int64Range (toNumber need)
              then Inr (assemble (memo opts) (addReferences (references opts)
                          (SystemProgram_transfer lib payer recipient (toNumber need))))
              else Inl RangeError)"
    by (simp add: createTransaction_native nativeTransfer_def Let_def)
  have "int64Range (toNumber need)" if "- (2 ^ 63) \<le> need"
    using that neg by (rule toNumber_negative_int64)
  with neg nn run show ?thesis by (simp add: toNumber_exact)
qed

theorem negative_amount_accepted_witness:
  "valueOf (BigNumber (- 15) 1) < 0 \<and>
   decimalPlaces (BigNumber (- 15) 1) \<le> SOL_DECIMALS \<and>
   - 1500000000 = \<lfloor>valueOf (BigNumber (- 15) 1) * 10 ^ SOL_DECIMALS\<rfloor> \<and>
   createTransaction sampleLibrary (sampleLedger 0 0 False) alice bob (BigNumber (- 15) 1)
     nativeOptions
     = ([alice, bob], Inr \<lparr>instructions =
          [SystemProgram_transfer sampleLibrary alice bob (Finite (- 1500000000))]\<rparr>)"
proof -
  have p: "sampleLedger 0 0 False alice = Some (walletAccount 0)"
    and r: "sampleLedger 0 0 False bob = Some (walletAccount 0)"
    by (simp_all add: sample_defs)
  have o: "token nativeOptions = None"
    by (simp add: nativeOptions_def)
  have v: "valueOf (BigNumber (- 15) 1) < 0"
    by (simp add: valueOf_def)
  have d: "decimalPlaces (BigNumber (- 15) 1) \<le> SOL_DECIMALS"
    by (simp add: decimalPlaces_def SOL_DECIMALS_def)
  have n: "- 1500000000 = \<lfloor>valueOf (BigNumber (- 15) 1) * 10 ^ SOL_DECIMALS\<rfloor>"
    by (simp add: valueOf_def SOL_DECIMALS_def)
  have e: "toNumber (- 1500000000) = Finite (- 1500000000)"
    by (rule toNumber_exact) simp
  from negative_amount_accepted [OF p r o v d n, of sampleLibrary] e
  have "createTransaction sampleLibrary (sampleLedger 0 0 False) alice bob (BigNumber (- 15) 1)
     nativeOptions
     = ([alice, bob], Inr \<lparr>instructions =
          [SystemProgram_transfer sampleLibrary alice bob (Finite (- 1500000000))]\<rparr>)"
    by (simp add: nativeOptions_def assemble_def addReferences_def)
  with v d n show ?thesis by blast
qed

subsection \<open>C10: an empty list of references\<close>

text \<open>
  Claim C10.  An empty references array is the same as no references: for every other
  input and every ledger, the call with \<open>references = []\<close> gives what the call without
  references gives, ledger calls, error or transaction alike.
\<close>

theorem empty_references_as_absent:
  "createTransaction lib connection payer recipient amount (opts\<lparr>references := Some []\<rparr>)
     = createTransaction lib connection payer recipient amount (opts\<lparr>references := None\<rparr>)"
  by (simp add: createTransaction_def addReferences_def split: option.splits)

theorem empty_references_as_absent_witness:
  "createTransaction sampleLibrary (sampleLedger 2000000000 0 False) alice bob (BigNumber 15 1)
     (nativeOptions\<lparr>references := Some []\<rparr>)
   = ([alice, bob], Inr \<lparr>instructions =
        [SystemProgram_transfer sampleLibrary alice bob (Finite 1500000000)]\<rparr>)"
proof -
  have "nativeOptions\<lparr>references := None\<rparr> = nativeOptions"
    by (simp add: nativeOptions_def)
  with empty_references_as_absent [of sampleLibrary "sampleLedger 2000000000 0 False" alice bob
      "BigNumber 15 1" nativeOptions] native_scenario
  show ?thesis by simp
qed

end
